theory Spec2Isabelle
  imports Complex_Main
begin

section \<open>Dates, times and rows\<close>

text \<open>
  A \<open>datetime.date\<close> is represented by its proleptic Gregorian ordinal
  (\<open>date.toordinal()\<close>), so \<open>d + timedelta(days=n)\<close> is \<open>d + n\<close> and
  \<open>(a - b).days\<close> is \<open>a - b\<close>. A naive \<open>datetime.datetime\<close> is the number of
  microseconds since midnight of ordinal 0. Python keeps both inside the years 1..9999
  (\<open>date.min\<close> is ordinal 1, \<open>date.max\<close> is ordinal 3652059) and raises
  \<open>OverflowError\<close> when \<open>timedelta\<close> arithmetic leaves that range.
\<close>

type_synonym date = int
type_synonym datetime = int

definition usec_per_day :: int where
  "usec_per_day = 86400000000"

definition combine_min :: "date \<Rightarrow> datetime" where
  \<comment> \<open>\<open>datetime.combine(d, datetime.min.time())\<close>: midnight at the start of \<open>d\<close>\<close>
  "combine_min d = d * usec_per_day"

definition combine_max :: "date \<Rightarrow> datetime" where
  \<comment> \<open>\<open>datetime.combine(d, datetime.max.time())\<close>: 23:59:59.999999 of \<open>d\<close>\<close>
  "combine_max d = d * usec_per_day + (usec_per_day - 1)"

definition date_of :: "datetime \<Rightarrow> date" where
  \<comment> \<open>the calendar day of a moment; \<open>date.today()\<close> is \<open>date_of\<close> of \<open>datetime.now()\<close>\<close>
  "date_of t = t div usec_per_day"

definition date_min :: date where
  "date_min = 1"

definition date_max :: date where
  "date_max = 3652059"

datatype py_error = TypeError | ValueError | ValidationError | OverflowError
  | IntegrityError | InvalidRequestError | ZeroDivisionError

definition add_days :: "date \<Rightarrow> int \<Rightarrow> py_error + date" where
  \<comment> \<open>\<open>d + timedelta(days=n)\<close>\<close>
  "add_days d n =
     (if date_min \<le> d + n \<and> d + n \<le> date_max then Inr (d + n) else Inl OverflowError)"

definition minus_days :: "datetime \<Rightarrow> int \<Rightarrow> py_error + datetime" where
  \<comment> \<open>\<open>t - timedelta(days=n)\<close>\<close>
  "minus_days t n =
     (if combine_min date_min \<le> t - n * usec_per_day \<and> t - n * usec_per_day \<le> combine_max date_max
      then Inr (t - n * usec_per_day) else Inl OverflowError)"

datatype sar_status = Pending | Responded | Overdue | Complete | Escalated

text \<open>
  The columns of \<open>models.SARCase\<close> that the operations below read or write. Every column
  except \<open>organization_name\<close> and \<open>request_type\<close> is nullable, hence the options.
\<close>

record sar_case =
  case_id :: int
  user_id :: int
  case_reference :: string
  organization_name :: string
  request_type :: string
  submission_date :: "date option"
  statutory_deadline :: "date option"
  extended_deadline :: "date option"
  custom_deadline :: "date option"
  status :: "sar_status option"
  response_received :: "bool option"
  response_date :: "date option"

record reminder =
  reminder_id :: int
  r_user_id :: int
  r_sar_case_id :: "int option"
  reminder_date :: "datetime option"
  reminder_type :: string
  is_completed :: bool

record ico_escalation =
  escalation_id :: int
  e_sar_case_id :: int
  e_user_id :: int
  escalation_date :: date
  ico_reference :: string
  ico_investigation_deadline :: "date option"
  ico_decision_deadline :: "date option"

record db =
  cases :: "sar_case list"
  reminders :: "reminder list"
  escalations :: "ico_escalation list"

definition next_id :: "int list \<Rightarrow> int" where
  \<comment> \<open>the primary key the database hands to a new row\<close>
  "next_id ids = fold max ids 0 + 1"

definition or_else :: "'a option \<Rightarrow> 'a option \<Rightarrow> 'a option" where
  \<comment> \<open>Python's \<open>a or b\<close> on values that are \<open>None\<close> or a (always truthy) date\<close>
  "or_else a b = (case a of Some x \<Rightarrow> Some x | None \<Rightarrow> b)"

section \<open>Case creation and reminders\<close>

text \<open>
  \<open>ReminderCreate\<close> is imported from \<open>app.schemas_compatible\<close>; the validation it runs
  on \<open>reminder_date\<close> is the parameter \<open>accepts\<close>. The class of the same name in
  \<open>app/schemas.py\<close> rejects a date before \<open>datetime.now()\<close>, which is
  \<open>reminder_date_cannot_be_past\<close>.
\<close>

definition reminder_date_cannot_be_past :: "datetime \<Rightarrow> datetime \<Rightarrow> bool" where
  "reminder_date_cannot_be_past now v = (\<not> v < now)"

definition create_reminder ::
  "int option \<Rightarrow> datetime \<Rightarrow> string \<Rightarrow> int \<Rightarrow> db \<Rightarrow> reminder \<times> db" where
  "create_reminder sar_id rdate rtype uid d =
     (let r = \<lparr>reminder_id = next_id (map reminder_id (reminders d)), r_user_id = uid,
                r_sar_case_id = sar_id, reminder_date = Some rdate, reminder_type = rtype,
                is_completed = False\<rparr>
      in (r, d\<lparr>reminders := reminders d @ [r]\<rparr>))"

definition create_deadline_reminder ::
  "(datetime \<Rightarrow> bool) \<Rightarrow> datetime \<Rightarrow> int \<Rightarrow> int \<Rightarrow> date \<Rightarrow> db \<Rightarrow> (py_error + reminder) \<times> db" where
  "create_deadline_reminder accepts now sar_id uid deadline_date d =
     (let current_date = date_of now;
          reminder_date = (if deadline_date \<le> current_date
                           then map_sum id combine_min (add_days current_date 1)
                           else minus_days (combine_min deadline_date) 1)
      in case reminder_date of
           Inl e \<Rightarrow> (Inl e, d)
         | Inr rdate \<Rightarrow>
             if accepts rdate
             then (case create_reminder (Some sar_id) rdate ''Deadline'' uid d of
                     (r, d') \<Rightarrow> (Inr r, d'))
             else (Inl ValidationError, d))"

definition create_ico_deadline_reminder ::
  "(datetime \<Rightarrow> bool) \<Rightarrow> int \<Rightarrow> int \<Rightarrow> date \<Rightarrow> db \<Rightarrow> (py_error + reminder) \<times> db" where
  "create_ico_deadline_reminder accepts sar_id uid deadline_date d =
     (case minus_days (combine_min deadline_date) 7 of
        Inl e \<Rightarrow> (Inl e, d)
      | Inr rdate \<Rightarrow>
          if accepts rdate
          then (case create_reminder (Some sar_id) rdate ''ICO Deadline'' uid d of
                  (r, d') \<Rightarrow> (Inr r, d'))
          else (Inl ValidationError, d))"

text \<open>The fields of \<open>SARCreate\<close> that reach the stored row.\<close>

record sar_create =
  c_organization_name :: string
  c_request_type :: string
  c_submission_date :: date
  c_custom_deadline :: "date option"

definition create_sar_case_db ::
  "(datetime \<Rightarrow> bool) \<Rightarrow> datetime \<Rightarrow> string \<Rightarrow> sar_create \<Rightarrow> int \<Rightarrow> db \<Rightarrow> (py_error + sar_case) \<times> db" where
  \<comment> \<open>\<open>ref\<close> is the generated case reference, a column with a unique index: the commit of
     a reference already stored raises \<open>IntegrityError\<close>. The row is committed before the
     reminder is made.\<close>
  "create_sar_case_db accepts now ref sar_data uid d =
     (case (if c_request_type sar_data = ''FOIA''
            then add_days (c_submission_date sar_data) 20
            else add_days (c_submission_date sar_data) 28) of
        Inl e \<Rightarrow> (Inl e, d)
      | Inr statutory \<Rightarrow>
          if ref \<in> set (map case_reference (cases d)) then (Inl IntegrityError, d)
          else
            (let db_sar = \<lparr>case_id = next_id (map case_id (cases d)), user_id = uid,
                             case_reference = ref,
                             organization_name = c_organization_name sar_data,
                             request_type = c_request_type sar_data,
                             submission_date = Some (c_submission_date sar_data),
                             statutory_deadline = Some statutory,
                             extended_deadline = None,
                             custom_deadline = c_custom_deadline sar_data,
                             status = Some Pending,
                             response_received = Some False,
                             response_date = None\<rparr>;
                 d1 = d\<lparr>cases := cases d @ [db_sar]\<rparr>
             in case create_deadline_reminder accepts now (case_id db_sar) uid statutory d1 of
                  (Inl e, d2) \<Rightarrow> (Inl e, d2)
                | (Inr r, d2) \<Rightarrow> (Inr db_sar, d2)))"

section \<open>Case update and status recomputation\<close>

text \<open>
  \<open>SARUpdate\<close> is a pydantic model whose fields all default to \<open>None\<close>;
  \<open>dict(exclude_unset=True)\<close> keeps exactly the fields the request supplied, a supplied
  \<open>null\<close> included. \<open>Unset\<close> is a field the request did not supply. The text columns
  that no operation below reads are left out of the record.
\<close>

datatype 'a field = Unset | Given 'a

definition set_field :: "'a field \<Rightarrow> 'a \<Rightarrow> 'a" where
  \<comment> \<open>\<open>setattr\<close> for a supplied field, the old value otherwise\<close>
  "set_field f old = (case f of Unset \<Rightarrow> old | Given v \<Rightarrow> v)"

definition field_value :: "'a option field \<Rightarrow> 'a option" where
  \<comment> \<open>reading the attribute of the pydantic object: the default \<open>None\<close> when unset\<close>
  "field_value f = (case f of Unset \<Rightarrow> None | Given v \<Rightarrow> v)"

record sar_update =
  u_organization_name :: "string field"
  u_request_type :: "string field"
  u_extended_deadline :: "date option field"
  u_custom_deadline :: "date option field"
  u_status :: "sar_status option field"
  u_response_received :: "bool option field"
  u_response_date :: "date option field"

definition apply_fields :: "sar_update \<Rightarrow> sar_case \<Rightarrow> sar_case" where
  \<comment> \<open>the loop \<open>for field, value in update_data.items(): setattr(sar_case, field, value)\<close>\<close>
  "apply_fields u c =
     c\<lparr>organization_name := set_field (u_organization_name u) (organization_name c),
       request_type := set_field (u_request_type u) (request_type c),
       extended_deadline := set_field (u_extended_deadline u) (extended_deadline c),
       custom_deadline := set_field (u_custom_deadline u) (custom_deadline c),
       status := set_field (u_status u) (status c),
       response_received := set_field (u_response_received u) (response_received c),
       response_date := set_field (u_response_date u) (response_date c)\<rparr>"

definition recompute_status_db :: "sar_update \<Rightarrow> date \<Rightarrow> sar_case \<Rightarrow> py_error + sar_case" where
  \<comment> \<open>\<open>update_sar_case_db\<close>, from "Update status based on response received" to the overdue
     check; comparing a date with \<open>None\<close> raises \<open>TypeError\<close>\<close>
  "recompute_status_db sar_data current_date c =
     (let c1 = (if field_value (u_response_received sar_data) = Some True
                then c\<lparr>status := Some Responded\<rparr> else c);
          deadline = or_else (extended_deadline c1)
                       (or_else (custom_deadline c1) (statutory_deadline c1))
      in case deadline of
           None \<Rightarrow> Inl TypeError
         | Some dl \<Rightarrow>
             Inr (if current_date > dl \<and> status c1 = Some Pending
                  then c1\<lparr>status := Some Overdue\<rparr> else c1))"

definition get_sar_case_db :: "int \<Rightarrow> int \<Rightarrow> db \<Rightarrow> sar_case option" where
  "get_sar_case_db sar_id uid d =
     find (\<lambda>c. case_id c = sar_id \<and> user_id c = uid) (cases d)"

definition store_case :: "sar_case \<Rightarrow> db \<Rightarrow> db" where
  \<comment> \<open>\<open>db.commit()\<close> of a modified row: the row with this primary key is replaced\<close>
  "store_case c d = d\<lparr>cases := map (\<lambda>x. if case_id x = case_id c then c else x) (cases d)\<rparr>"

text \<open>
  Every function of \<open>crud.py\<close> opens its session with \<open>SessionLocal()\<close>, and
  \<open>update_sar_case_db\<close> and \<open>create_ico_escalation_db\<close> load the case through
  \<open>get_sar_case_db\<close>, which opens another. \<open>app/database.py\<close> is not among the sources,
  so whether \<open>SessionLocal()\<close> hands out one shared session or a new one at each call is the
  parameter \<open>shared\<close>. With a new session at each call the loaded row belongs to the other
  session: \<open>db.commit()\<close> writes nothing of it, and \<open>db.refresh(sar_case)\<close> raises
  \<open>InvalidRequestError\<close>.
\<close>

definition update_sar_case_db ::
  "bool \<Rightarrow> date \<Rightarrow> int \<Rightarrow> sar_update \<Rightarrow> int \<Rightarrow> db \<Rightarrow> (py_error + sar_case option) \<times> db" where
  "update_sar_case_db shared current_date sar_id sar_data uid d =
     (case get_sar_case_db sar_id uid d of
        None \<Rightarrow> (Inr None, d)
      | Some c \<Rightarrow>
          (case recompute_status_db sar_data current_date (apply_fields sar_data c) of
             Inl e \<Rightarrow> (Inl e, d)
           | Inr c' \<Rightarrow>
               if shared then (Inr (Some c'), store_case c' d)
               else (Inl InvalidRequestError, d)))"

text \<open>
  \<open>update_sar_case_simple_db\<close> takes a generic object and copies the attributes it has
  (\<open>hasattr\<close>); its caller in \<open>main_simple.py\<close> always supplies all of them.
\<close>

record simple_update =
  s_organization_name :: "string field"
  s_custom_deadline :: "date option field"

definition apply_fields_simple :: "simple_update \<Rightarrow> sar_case \<Rightarrow> sar_case" where
  "apply_fields_simple u c =
     c\<lparr>organization_name := set_field (s_organization_name u) (organization_name c),
       custom_deadline := set_field (s_custom_deadline u) (custom_deadline c)\<rparr>"

definition recompute_status_simple :: "date \<Rightarrow> sar_case \<Rightarrow> sar_case" where
  \<comment> \<open>\<open>update_sar_case_simple_db\<close>, "Update status based on deadlines":
     \<open>if deadline and current_date > deadline and sar_case.status == "Pending"\<close>\<close>
  "recompute_status_simple current_date c =
     (case or_else (extended_deadline c) (or_else (custom_deadline c) (statutory_deadline c)) of
        None \<Rightarrow> c
      | Some dl \<Rightarrow>
          if current_date > dl \<and> status c = Some Pending
          then c\<lparr>status := Some Overdue\<rparr> else c)"

definition update_sar_case_simple_db ::
  "date \<Rightarrow> int \<Rightarrow> simple_update \<Rightarrow> int \<Rightarrow> db \<Rightarrow> sar_case option \<times> db" where
  "update_sar_case_simple_db current_date sar_id sar_data uid d =
     (case get_sar_case_db sar_id uid d of
        None \<Rightarrow> (None, d)
      | Some c \<Rightarrow>
          (let c' = recompute_status_simple current_date (apply_fields_simple sar_data c)
           in (Some c', store_case c' d)))"

section \<open>Escalation\<close>

record ico_escalation_create =
  x_escalation_date :: date
  x_ico_reference :: "string option"
  x_ico_investigation_deadline :: "date option"
  x_ico_decision_deadline :: "date option"

definition create_ico_escalation_db ::
  "bool \<Rightarrow> (datetime \<Rightarrow> bool) \<Rightarrow> string \<Rightarrow> int \<Rightarrow> ico_escalation_create \<Rightarrow> int \<Rightarrow> db
     \<Rightarrow> (py_error + ico_escalation) \<times> db" where
  \<comment> \<open>\<open>gen_ref\<close> is the reference generated when none is supplied. \<open>ico_reference\<close> has a
     unique index: the first commit of a reference already stored raises \<open>IntegrityError\<close>,
     before the status is touched.\<close>
  "create_ico_escalation_db shared accepts gen_ref sar_id escalation_data uid d =
     (case get_sar_case_db sar_id uid d of
        None \<Rightarrow> (Inl ValueError, d)
      | Some sar_case \<Rightarrow>
          (let ref = (case x_ico_reference escalation_data of
                        None \<Rightarrow> gen_ref
                      | Some r \<Rightarrow> if r = [] then gen_ref else r)
           in if ref \<in> set (map ico_reference (escalations d)) then (Inl IntegrityError, d)
              else
                (let db_escalation =
                       \<lparr>escalation_id = next_id (map escalation_id (escalations d)),
                        e_sar_case_id = sar_id, e_user_id = uid,
                        escalation_date = x_escalation_date escalation_data,
                        ico_reference = ref,
                        ico_investigation_deadline = x_ico_investigation_deadline escalation_data,
                        ico_decision_deadline = x_ico_decision_deadline escalation_data\<rparr>;
                     d1 = d\<lparr>escalations := escalations d @ [db_escalation]\<rparr>;
                     d2 = (if shared then store_case (sar_case\<lparr>status := Some Escalated\<rparr>) d1
                           else d1)
                 in case x_ico_investigation_deadline escalation_data of
                      None \<Rightarrow> (Inr db_escalation, d2)
                    | Some dl \<Rightarrow>
                        (case create_ico_deadline_reminder accepts sar_id uid dl d2 of
                           (Inl e, d3) \<Rightarrow> (Inl e, d3)
                         | (Inr r, d3) \<Rightarrow> (Inr db_escalation, d3)))))"

section \<open>Dashboard, performance, upcoming deadlines and calendar\<close>

text \<open>
  The queries run in SQL, where a comparison with \<open>NULL\<close> is not true and a row is kept
  only when its filter is true. The filters below use \<open>and_\<close> and \<open>or_\<close> only, so a
  comparison on a missing value counts as false.
\<close>

definition ge_date :: "date option \<Rightarrow> date \<Rightarrow> bool" where
  "ge_date a x = (case a of None \<Rightarrow> False | Some v \<Rightarrow> v \<ge> x)"

definition lt_date :: "date option \<Rightarrow> date \<Rightarrow> bool" where
  "lt_date a x = (case a of None \<Rightarrow> False | Some v \<Rightarrow> v < x)"

definition in_window :: "date option \<Rightarrow> date \<Rightarrow> date \<Rightarrow> bool" where
  "in_window a lo hi = (case a of None \<Rightarrow> False | Some v \<Rightarrow> v \<ge> lo \<and> v \<le> hi)"

definition status_in :: "sar_status option \<Rightarrow> sar_status list \<Rightarrow> bool" where
  "status_in s xs = (case s of None \<Rightarrow> False | Some v \<Rightarrow> v \<in> set xs)"

definition count_where :: "('a \<Rightarrow> bool) \<Rightarrow> 'a list \<Rightarrow> nat" where
  \<comment> \<open>\<open>query.filter(...).count()\<close>\<close>
  "count_where P xs = length (filter P xs)"

record dashboard =
  total_cases :: nat
  pending_cases :: nat
  overdue_cases :: nat
  completed_cases :: nat
  escalated_cases :: nat
  upcoming_deadlines :: nat
  overdue_deadlines :: nat

definition upcoming_filter :: "int \<Rightarrow> date \<Rightarrow> sar_case \<Rightarrow> bool" where
  "upcoming_filter uid current_date c =
     (user_id c = uid \<and> status_in (status c) [Pending, Overdue] \<and>
      (ge_date (statutory_deadline c) current_date \<or>
       ge_date (extended_deadline c) current_date \<or>
       ge_date (custom_deadline c) current_date))"

definition overdue_filter :: "int \<Rightarrow> date \<Rightarrow> sar_case \<Rightarrow> bool" where
  "overdue_filter uid current_date c =
     (user_id c = uid \<and> status_in (status c) [Pending, Overdue] \<and>
      (lt_date (statutory_deadline c) current_date \<or>
       lt_date (extended_deadline c) current_date \<or>
       lt_date (custom_deadline c) current_date))"

definition get_dashboard_data :: "date \<Rightarrow> int \<Rightarrow> db \<Rightarrow> dashboard" where
  "get_dashboard_data current_date uid d =
     \<lparr>total_cases = count_where (\<lambda>c. user_id c = uid) (cases d),
      pending_cases = count_where (\<lambda>c. user_id c = uid \<and> status c = Some Pending) (cases d),
      overdue_cases = count_where (\<lambda>c. user_id c = uid \<and> status c = Some Overdue) (cases d),
      completed_cases = count_where (\<lambda>c. user_id c = uid \<and> status c = Some Complete) (cases d),
      escalated_cases = count_where (\<lambda>c. user_id c = uid \<and> status c = Some Escalated) (cases d),
      upcoming_deadlines = count_where (upcoming_filter uid current_date) (cases d),
      overdue_deadlines = count_where (overdue_filter uid current_date) (cases d)\<rparr>"

text \<open>
  The loop of a Python \<open>for\<close> statement whose body may raise: the results so far are lost
  at the first exception.
\<close>

fun collect :: "('a \<Rightarrow> py_error + 'b) \<Rightarrow> 'a list \<Rightarrow> py_error + 'b list" where
  "collect f [] = Inr []"
| "collect f (x # xs) =
     (case f x of
        Inl e \<Rightarrow> Inl e
      | Inr y \<Rightarrow> (case collect f xs of Inl e \<Rightarrow> Inl e | Inr ys \<Rightarrow> Inr (y # ys)))"

text \<open>
  Organization performance. Python's \<open>/\<close> on two integers gives a float and raises
  \<open>ZeroDivisionError\<close> on a zero divisor; the float type \<open>'f\<close>, the quotient \<open>fdiv\<close> of
  two integers and the product \<open>fmul\<close> of a float and an integer are parameters. What
  \<open>func.extract('day', response_date - submission_date)\<close> evaluates to is decided by the
  database, not by the sources (SQLite and PostgreSQL differ), so it is the parameter
  \<open>extract_day\<close>, from the two column values to the integer of the result row, \<open>None\<close>
  for \<open>NULL\<close>.
\<close>

definition truediv :: "(int \<Rightarrow> int \<Rightarrow> 'f) \<Rightarrow> int \<Rightarrow> int \<Rightarrow> py_error + 'f" where
  "truediv fdiv a b = (if b = 0 then Inl ZeroDivisionError else Inr (fdiv a b))"

record 'f org_performance =
  p_organization_name :: string
  total_sars :: nat
  responded_on_time :: nat
  responded_late :: nat
  ignored :: nat
  average_response_time :: "'f option"
  compliance_rating :: "'f option"

definition on_time_filter :: "int \<Rightarrow> string \<Rightarrow> sar_case \<Rightarrow> bool" where
  "on_time_filter uid org c =
     (user_id c = uid \<and> organization_name c = org \<and> response_received c = Some True \<and>
      (case (response_date c, statutory_deadline c) of
         (Some r, Some s) \<Rightarrow> r \<le> s | _ \<Rightarrow> False))"

definition late_filter :: "int \<Rightarrow> string \<Rightarrow> sar_case \<Rightarrow> bool" where
  "late_filter uid org c =
     (user_id c = uid \<and> organization_name c = org \<and> response_received c = Some True \<and>
      (case (response_date c, statutory_deadline c) of
         (Some r, Some s) \<Rightarrow> r > s | _ \<Rightarrow> False))"

definition ignored_filter :: "int \<Rightarrow> string \<Rightarrow> date \<Rightarrow> sar_case \<Rightarrow> bool" where
  "ignored_filter uid org current_date c =
     (user_id c = uid \<and> organization_name c = org \<and> response_received c = Some False \<and>
      lt_date (statutory_deadline c) current_date)"

definition response_filter :: "int \<Rightarrow> string \<Rightarrow> sar_case \<Rightarrow> bool" where
  "response_filter uid org c =
     (user_id c = uid \<and> organization_name c = org \<and> response_received c = Some True \<and>
      response_date c \<noteq> None)"

definition sum_not_none :: "int option list \<Rightarrow> int" where
  \<comment> \<open>\<open>sum(rt[0] for rt in response_times if rt[0] is not None)\<close>\<close>
  "sum_not_none rts = sum_list (map (\<lambda>rt. case rt of None \<Rightarrow> 0 | Some v \<Rightarrow> v) rts)"

definition organization_row ::
  "(int \<Rightarrow> int \<Rightarrow> 'f) \<Rightarrow> ('f \<Rightarrow> int \<Rightarrow> 'f) \<Rightarrow> (date option \<Rightarrow> date option \<Rightarrow> int option) \<Rightarrow>
   date \<Rightarrow> int \<Rightarrow> sar_case list \<Rightarrow> string \<Rightarrow> py_error + 'f org_performance" where
  \<comment> \<open>the body of the loop over organizations in \<open>get_organization_performance_data\<close>\<close>
  "organization_row fdiv fmul extract_day current_date uid cs org_name =
     (let total = count_where (\<lambda>c. user_id c = uid \<and> organization_name c = org_name) cs;
          on_time = count_where (on_time_filter uid org_name) cs;
          late = count_where (late_filter uid org_name) cs;
          ign = count_where (ignored_filter uid org_name current_date) cs;
          response_times = map (\<lambda>c. extract_day (response_date c) (submission_date c))
                             (filter (response_filter uid org_name) cs)
      in case (if response_times \<noteq> []
               then map_sum id Some
                      (truediv fdiv (sum_not_none response_times) (int (length response_times)))
               else Inr None) of
           Inl e \<Rightarrow> Inl e
         | Inr avg \<Rightarrow>
             (case (if total > 0
                    then map_sum id (\<lambda>q. Some (fmul q 100)) (truediv fdiv (int on_time) (int total))
                    else Inr None) of
                Inl e \<Rightarrow> Inl e
              | Inr rating \<Rightarrow>
                  Inr \<lparr>p_organization_name = org_name, total_sars = total,
                       responded_on_time = on_time, responded_late = late, ignored = ign,
                       average_response_time = avg, compliance_rating = rating\<rparr>))"

definition get_organization_performance_data ::
  "(int \<Rightarrow> int \<Rightarrow> 'f) \<Rightarrow> ('f \<Rightarrow> int \<Rightarrow> 'f) \<Rightarrow> (date option \<Rightarrow> date option \<Rightarrow> int option) \<Rightarrow>
   date \<Rightarrow> int \<Rightarrow> db \<Rightarrow> py_error + 'f org_performance list" where
  "get_organization_performance_data fdiv fmul extract_day current_date uid d =
     collect (organization_row fdiv fmul extract_day current_date uid (cases d))
       (remdups (map organization_name (filter (\<lambda>c. user_id c = uid) (cases d))))"

record deadline_row =
  dr_sar_case_id :: int
  dr_case_reference :: string
  dr_organization_name :: string
  deadline_date :: date
  days_remaining :: int
  dr_is_overdue :: bool
  deadline_type :: string

definition deadline_type_of :: "sar_case \<Rightarrow> string" where
  \<comment> \<open>\<open>"Custom" if custom_deadline else "Extended" if extended_deadline else "Statutory"\<close>\<close>
  "deadline_type_of c =
     (if custom_deadline c \<noteq> None then ''Custom''
      else if extended_deadline c \<noteq> None then ''Extended'' else ''Statutory'')"

definition upcoming_row :: "date \<Rightarrow> int \<Rightarrow> sar_case \<Rightarrow> deadline_row option" where
  \<comment> \<open>the body of the loop in \<open>get_upcoming_deadlines_data\<close>; \<open>None\<close> when nothing is appended\<close>
  "upcoming_row current_date days c =
     (case or_else (custom_deadline c) (or_else (extended_deadline c) (statutory_deadline c)) of
        None \<Rightarrow> None
      | Some actual_deadline \<Rightarrow>
          (let remaining = actual_deadline - current_date;
               overdue = remaining < 0
           in if remaining \<le> days \<or> overdue
              then Some \<lparr>dr_sar_case_id = case_id c, dr_case_reference = case_reference c,
                         dr_organization_name = organization_name c,
                         deadline_date = actual_deadline, days_remaining = remaining,
                         dr_is_overdue = overdue, deadline_type = deadline_type_of c\<rparr>
              else None))"

definition get_upcoming_deadlines_data :: "date \<Rightarrow> int \<Rightarrow> int \<Rightarrow> db \<Rightarrow> deadline_row list" where
  \<comment> \<open>the rows are sorted on the ISO text of the date, which orders as the dates do\<close>
  "get_upcoming_deadlines_data current_date uid days d =
     sort_key deadline_date
       (List.map_filter (upcoming_row current_date days)
          (filter (\<lambda>c. user_id c = uid \<and> status_in (status c) [Pending, Overdue]) (cases d)))"

text \<open>
  Calendar events. The display texts (\<open>title\<close>, \<open>description\<close>) are not part of the
  record; the identifier is, with the decimal text Python's f-string gives an integer.
  \<open>start_date\<close> and \<open>end_date\<close> are the already parsed parameters, \<open>None\<close> when the
  caller passed none.
\<close>

record calendar_event =
  event_id :: string
  event_date :: datetime
  event_type :: string
  ev_sar_case_id :: "int option"
  is_overdue :: bool

definition digit_char :: "nat \<Rightarrow> char" where
  "digit_char n = char_of (48 + n)"

fun str_nat :: "nat \<Rightarrow> string" where
  "str_nat n = (if n < 10 then [digit_char n] else str_nat (n div 10) @ [digit_char (n mod 10)])"

declare str_nat.simps [simp del]

definition str_int :: "int \<Rightarrow> string" where
  "str_int i = (if i < 0 then CHR ''-'' # str_nat (nat (- i)) else str_nat (nat i))"

definition calendar_case_filter :: "int \<Rightarrow> date \<Rightarrow> date \<Rightarrow> sar_case \<Rightarrow> bool" where
  "calendar_case_filter uid start_d end_d c =
     (user_id c = uid \<and> status_in (status c) [Pending, Overdue] \<and>
      (in_window (statutory_deadline c) start_d end_d \<or>
       in_window (extended_deadline c) start_d end_d \<or>
       in_window (custom_deadline c) start_d end_d))"

definition creation_filter :: "int \<Rightarrow> date \<Rightarrow> date \<Rightarrow> sar_case \<Rightarrow> bool" where
  "creation_filter uid start_d end_d c =
     (user_id c = uid \<and> in_window (submission_date c) start_d end_d)"

definition reminder_filter :: "int \<Rightarrow> date \<Rightarrow> date \<Rightarrow> reminder \<Rightarrow> bool" where
  "reminder_filter uid start_d end_d r =
     (r_user_id r = uid \<and>
      (case reminder_date r of None \<Rightarrow> False
       | Some t \<Rightarrow> t \<ge> combine_min start_d \<and> t \<le> combine_max end_d) \<and>
      is_completed r = False)"

definition deadline_event :: "date \<Rightarrow> sar_case \<Rightarrow> py_error + calendar_event" where
  \<comment> \<open>\<open>datetime.combine(None, ...)\<close> raises \<open>TypeError\<close>\<close>
  "deadline_event today c =
     (case or_else (custom_deadline c) (or_else (extended_deadline c) (statutory_deadline c)) of
        None \<Rightarrow> Inl TypeError
      | Some dl \<Rightarrow>
          Inr \<lparr>event_id = ''deadline_'' @ str_int (case_id c),
               event_date = combine_min dl,
               event_type = ''Deadline'',
               ev_sar_case_id = Some (case_id c),
               is_overdue = (dl < today)\<rparr>)"

definition creation_event :: "sar_case \<Rightarrow> py_error + calendar_event" where
  "creation_event c =
     (case submission_date c of
        None \<Rightarrow> Inl TypeError
      | Some sd \<Rightarrow>
          Inr \<lparr>event_id = ''creation_'' @ str_int (case_id c),
               event_date = combine_min sd,
               event_type = ''Case Creation'',
               ev_sar_case_id = Some (case_id c),
               is_overdue = False\<rparr>)"

definition reminder_event :: "datetime \<Rightarrow> reminder \<Rightarrow> py_error + calendar_event" where
  \<comment> \<open>\<open>reminder.reminder_date < datetime.now()\<close> raises \<open>TypeError\<close> on \<open>None\<close>\<close>
  "reminder_event now r =
     (case reminder_date r of
        None \<Rightarrow> Inl TypeError
      | Some t \<Rightarrow>
          Inr \<lparr>event_id = ''reminder_'' @ str_int (reminder_id r),
               event_date = t,
               event_type = ''Reminder'',
               ev_sar_case_id = r_sar_case_id r,
               is_overdue = (t < now)\<rparr>)"

definition get_calendar_events_data ::
  "datetime \<Rightarrow> int \<Rightarrow> date option \<Rightarrow> date option \<Rightarrow> db \<Rightarrow> py_error + calendar_event list" where
  "get_calendar_events_data now uid start_date end_date d =
     (let today = date_of now;
          start_d = (case start_date of Some s \<Rightarrow> s | None \<Rightarrow> today);
          end_d = (case end_date of Some e \<Rightarrow> e | None \<Rightarrow> start_d + 30)
      in case collect (deadline_event today)
                (filter (calendar_case_filter uid start_d end_d) (cases d)) of
           Inl e \<Rightarrow> Inl e
         | Inr deadline_events \<Rightarrow>
             (case collect creation_event
                     (filter (creation_filter uid start_d end_d) (cases d)) of
                Inl e \<Rightarrow> Inl e
              | Inr creation_events \<Rightarrow>
                  (case collect (reminder_event now)
                          (filter (reminder_filter uid start_d end_d) (reminders d)) of
                     Inl e \<Rightarrow> Inl e
                   | Inr reminder_events \<Rightarrow>
                       Inr (sort_key event_date
                              (deadline_events @ creation_events @ reminder_events)))))"

section \<open>Example rows\<close>

definition acme_case :: sar_case where
  "acme_case = \<lparr>case_id = 1, user_id = 7, case_reference = ''SAR-202401-0A1B2C3D'',
      organization_name = ''Acme'', request_type = ''Other'',
      submission_date = Some 100, statutory_deadline = Some 128,
      extended_deadline = None, custom_deadline = None,
      status = Some Pending, response_received = Some False, response_date = None\<rparr>"

definition acme_db :: db where
  "acme_db = \<lparr>cases = [acme_case], reminders = [], escalations = []\<rparr>"

definition foia_request :: sar_create where
  "foia_request = \<lparr>c_organization_name = ''Council'', c_request_type = ''FOIA'',
      c_submission_date = 160, c_custom_deadline = None\<rparr>"

definition no_update :: sar_update where
  "no_update = \<lparr>u_organization_name = Unset, u_request_type = Unset,
      u_extended_deadline = Unset, u_custom_deadline = Unset, u_status = Unset,
      u_response_received = Unset, u_response_date = Unset\<rparr>"

definition retype_update :: sar_update where
  "retype_update = no_update\<lparr>u_request_type := Given ''FOIA''\<rparr>"

definition simple_clear :: simple_update where
  "simple_clear = \<lparr>s_organization_name = Given ''Acme Ltd'', s_custom_deadline = Given None\<rparr>"

definition last_day_request :: sar_create where
  \<comment> \<open>a request submitted on 9999-12-31\<close>
  "last_day_request = \<lparr>c_organization_name = ''Council'', c_request_type = ''Other'',
      c_submission_date = 3652059, c_custom_deadline = None\<rparr>"

definition noon_last_day :: datetime where
  \<comment> \<open>12:00 on 9999-12-31\<close>
  "noon_last_day = 3652059 * 86400000000 + 43200000000"

definition escalated_case :: sar_case where
  "escalated_case = acme_case\<lparr>status := Some Escalated\<rparr>"

definition response_update :: sar_update where
  "response_update = no_update\<lparr>u_response_received := Given (Some True),
      u_response_date := Given (Some 150)\<rparr>"

definition answered_pending_case :: sar_case where
  "answered_pending_case = acme_case\<lparr>response_received := Some True, response_date := Some 110\<rparr>"

definition no_deadline_case :: sar_case where
  "no_deadline_case = acme_case\<lparr>statutory_deadline := None\<rparr>"

definition escalation_request :: ico_escalation_create where
  "escalation_request = \<lparr>x_escalation_date = 135, x_ico_reference = None,
      x_ico_investigation_deadline = Some 136, x_ico_decision_deadline = None\<rparr>"

definition reopen_update :: sar_update where
  "reopen_update = no_update\<lparr>u_status := Given (Some Pending)\<rparr>"

definition both_case :: sar_case where
  "both_case = acme_case\<lparr>submission_date := Some 52, statutory_deadline := Some 80,
      extended_deadline := Some 110, custom_deadline := Some 90\<rparr>"

definition both_db :: db where
  "both_db = \<lparr>cases = [both_case], reminders = [], escalations = []\<rparr>"

definition noon_100 :: datetime where
  \<comment> \<open>12:00 on day 100\<close>
  "noon_100 = 100 * 86400000000 + 43200000000"

definition acme_on_time :: sar_case where
  "acme_on_time = acme_case\<lparr>status := Some Responded, response_received := Some True,
      response_date := Some 110\<rparr>"

definition acme_late :: sar_case where
  "acme_late = acme_case\<lparr>case_id := 2, case_reference := ''SAR-202401-11112222'',
      status := Some Responded, response_received := Some True, response_date := Some 135\<rparr>"

definition acme_two :: "sar_case list" where
  "acme_two = [acme_on_time, acme_late]"

text \<open>
  For the examples a float is named by the Python expression that produces it, and the
  database is one whose day extraction returns the difference of the two dates.
\<close>

datatype py_float = Quotient int int | Product py_float int

definition day_difference :: "date option \<Rightarrow> date option \<Rightarrow> int option" where
  "day_difference r s = (case (r, s) of (Some a, Some b) \<Rightarrow> Some (a - b) | _ \<Rightarrow> None)"

definition later_case :: sar_case where
  "later_case = acme_case\<lparr>case_id := 3, case_reference := ''SAR-202401-33334444''\<rparr>"

definition dashboard_db :: db where
  "dashboard_db = \<lparr>cases = [both_case, acme_late, later_case, both_case\<lparr>case_id := 4, user_id := 8\<rparr>],
      reminders = [], escalations = []\<rparr>"



section \<open>Rows and primary keys\<close>

lemma find_unique_id:
  "distinct (map case_id cs) \<Longrightarrow> find P cs = Some c \<Longrightarrow> x \<in> set cs \<Longrightarrow> case_id x = case_id c \<Longrightarrow> x = c"
proof (induction cs)
  case Nil
  then show ?case by simp
next
  case (Cons y ys)
  show ?case
  proof (cases "P y")
    case True
    with Cons.prems have "c = y" by simp
    with Cons.prems show ?thesis by (auto simp: image_iff)
  next
    case False
    with Cons.prems have f: "find P ys = Some c" by simp
    then have "c \<in> set ys" by (auto simp: find_Some_iff)
    with Cons f show ?thesis by (auto simp: image_iff)
  qed
qed

lemma store_case_keeps:
  assumes "distinct (map case_id (cases d))" "get_sar_case_db sar_id uid d = Some c"
    and "case_id c' = case_id c" "f c' = f c"
  shows "map f (cases (store_case c' d)) = map f (cases d)"
proof -
  have "\<And>x. x \<in> set (cases d) \<Longrightarrow> case_id x = case_id c \<Longrightarrow> x = c"
    using assms(1,2) unfolding get_sar_case_db_def by (rule find_unique_id)
  then show ?thesis using assms(3,4)
    by (auto simp: store_case_def)
qed

lemma recompute_db_statutory:
  "recompute_status_db u today c = Inr c' \<Longrightarrow> statutory_deadline c' = statutory_deadline c \<and> case_id c' = case_id c"
  by (auto simp: recompute_status_db_def Let_def split: option.splits if_splits)

lemma recompute_simple_statutory:
  "statutory_deadline (recompute_status_simple today c) = statutory_deadline c \<and>
   case_id (recompute_status_simple today c) = case_id c"
  by (auto simp: recompute_status_simple_def split: option.splits)

lemma get_case_id: "get_sar_case_db sar_id uid d = Some c \<Longrightarrow> case_id c = sar_id \<and> user_id c = uid"
  by (auto simp: get_sar_case_db_def find_Some_iff)

section \<open>Statutory deadline\<close>

text \<open>
  C3, as stated, fails for the last days of the year 9999: a submission on 9999-12-31
  (ordinal 3652059, the day of the call) has no date 28 days later, the addition raises
  \<open>OverflowError\<close> and no row is stored.
\<close>

theorem statutory_deadline_overflow_counterexample:
  "date_of noon_last_day = c_submission_date last_day_request \<and>
   c_submission_date last_day_request = date_max \<and>
   create_sar_case_db (\<lambda>t. True) noon_last_day ''SAR-999912-00000001'' last_day_request 7 acme_db =
     (Inl OverflowError, acme_db)"
  by (simp add: create_sar_case_db_def add_days_def date_min_def date_max_def date_of_def
      noon_last_day_def last_day_request_def usec_per_day_def)

text \<open>
  C3, amended. For every submission date whose deadline is still a date (the submission date
  plus 20 days for a FOIA request, plus 28 days for every other type, is not after
  9999-12-31), case creation with a case reference not yet stored stores a row whose
  statutory deadline is that date, whether or not the reminder that follows is accepted;
  the row returned is that row. Neither update operation changes the statutory deadline of
  any stored row, even when the update changes the request type. Primary keys are distinct.
\<close>

theorem statutory_deadline_fixed_at_creation:
  assumes "distinct (map case_id (cases d))"
  shows "(date_min \<le> c_submission_date sar_data \<and>
          c_submission_date sar_data + (if c_request_type sar_data = ''FOIA'' then 20 else 28)
            \<le> date_max \<and>
          ref \<notin> set (map case_reference (cases d)) \<longrightarrow>
            (\<exists>new. cases (snd (create_sar_case_db accepts now ref sar_data uid d)) = cases d @ [new] \<and>
               statutory_deadline new =
                 Some (c_submission_date sar_data +
                       (if c_request_type sar_data = ''FOIA'' then 20 else 28)) \<and>
               (\<forall>r. fst (create_sar_case_db accepts now ref sar_data uid d) = Inr r \<longrightarrow> r = new))) \<and>
         map statutory_deadline (cases (snd (update_sar_case_db shared today sar_id u uid d))) =
           map statutory_deadline (cases d) \<and>
         map statutory_deadline (cases (snd (update_sar_case_simple_db today sar_id s uid d))) =
           map statutory_deadline (cases d)"
proof (intro conjI impI)
  assume h: "date_min \<le> c_submission_date sar_data \<and>
          c_submission_date sar_data + (if c_request_type sar_data = ''FOIA'' then 20 else 28)
            \<le> date_max \<and>
          ref \<notin> set (map case_reference (cases d))"
  let ?k = "if c_request_type sar_data = ''FOIA'' then 20 else (28::int)"
  from h have a: "(if c_request_type sar_data = ''FOIA''
            then add_days (c_submission_date sar_data) 20
            else add_days (c_submission_date sar_data) 28) = Inr (c_submission_date sar_data + ?k)"
    by (cases "c_request_type sar_data = ''FOIA''") (simp_all add: add_days_def)
  from h have b: "ref \<notin> set (map case_reference (cases d))"
    by simp
  show "\<exists>new. cases (snd (create_sar_case_db accepts now ref sar_data uid d)) = cases d @ [new] \<and>
               statutory_deadline new = Some (c_submission_date sar_data + ?k) \<and>
               (\<forall>r. fst (create_sar_case_db accepts now ref sar_data uid d) = Inr r \<longrightarrow> r = new)"
    unfolding create_sar_case_db_def a
    using b
    by (auto simp: create_deadline_reminder_def create_reminder_def Let_def
        split: sum.splits)
next
  show "map statutory_deadline (cases (snd (update_sar_case_db shared today sar_id u uid d))) =
           map statutory_deadline (cases d)"
  proof (cases "get_sar_case_db sar_id uid d")
    case None
    then show ?thesis by (simp add: update_sar_case_db_def)
  next
    case (Some c)
    show ?thesis
    proof (cases "recompute_status_db u today (apply_fields u c)")
      case (Inl e)
      with Some show ?thesis by (simp add: update_sar_case_db_def)
    next
      case (Inr c')
      from recompute_db_statutory [OF Inr]
      have "case_id c' = case_id c" "statutory_deadline c' = statutory_deadline c"
        by (simp_all add: apply_fields_def)
      then have "map statutory_deadline (cases (store_case c' d)) =
                 map statutory_deadline (cases d)"
        by (rule store_case_keeps [OF assms Some])
      with Some Inr show ?thesis
        by (simp add: update_sar_case_db_def)
    qed
  qed
next
  show "map statutory_deadline (cases (snd (update_sar_case_simple_db today sar_id s uid d))) =
           map statutory_deadline (cases d)"
  proof (cases "get_sar_case_db sar_id uid d")
    case None
    then show ?thesis by (simp add: update_sar_case_simple_db_def)
  next
    case (Some c)
    have "case_id (recompute_status_simple today (apply_fields_simple s c)) = case_id c"
         "statutory_deadline (recompute_status_simple today (apply_fields_simple s c)) = statutory_deadline c"
      by (simp_all add: recompute_simple_statutory apply_fields_simple_def)
    with store_case_keeps [OF assms Some] Some show ?thesis
      by (simp add: update_sar_case_simple_db_def Let_def)
  qed
qed

theorem statutory_deadline_fixed_at_creation_witness:
  "distinct (map case_id (cases acme_db)) \<and>
   date_min \<le> c_submission_date foia_request \<and>
   c_submission_date foia_request + 20 \<le> date_max \<and>
   cases (snd (create_sar_case_db (\<lambda>t. True) 15000000000000 ''SAR-202403-00000001'' foia_request 7 acme_db))
     = cases acme_db @ [\<lparr>case_id = 2, user_id = 7, case_reference = ''SAR-202403-00000001'',
          organization_name = ''Council'', request_type = ''FOIA'',
          submission_date = Some 160, statutory_deadline = Some 180,
          extended_deadline = None, custom_deadline = None,
          status = Some Pending, response_received = Some False, response_date = None\<rparr>] \<and>
   map statutory_deadline (cases (snd (update_sar_case_db True 200 1 retype_update 7 acme_db))) =
     [Some 128] \<and>
   map statutory_deadline (cases (snd (update_sar_case_simple_db 200 1 simple_clear 7 acme_db))) =
     [Some 128]"
proof -
  have a: "distinct (map case_id (cases acme_db))"
    by (simp add: acme_db_def)
  have b: "date_min \<le> c_submission_date foia_request \<and>
           c_submission_date foia_request + 20 \<le> date_max"
    by (simp add: foia_request_def date_min_def date_max_def)
  have c: "''SAR-202403-00000001'' \<notin> set (map case_reference (cases acme_db))"
    by (simp add: acme_db_def acme_case_def)
  have t: "c_request_type foia_request = ''FOIA''"
    by (simp add: foia_request_def)
  have v: "cases (snd (create_sar_case_db (\<lambda>t. True) 15000000000000 ''SAR-202403-00000001'' foia_request 7 acme_db))
     = cases acme_db @ [\<lparr>case_id = 2, user_id = 7, case_reference = ''SAR-202403-00000001'',
          organization_name = ''Council'', request_type = ''FOIA'',
          submission_date = Some 160, statutory_deadline = Some 180,
          extended_deadline = None, custom_deadline = None,
          status = Some Pending, response_received = Some False, response_date = None\<rparr>]"
    by (simp add: acme_db_def acme_case_def foia_request_def create_sar_case_db_def
      create_deadline_reminder_def create_reminder_def Let_def next_id_def date_of_def
      usec_per_day_def combine_min_def combine_max_def minus_days_def add_days_def date_min_def
      date_max_def)
  have w: "map statutory_deadline (cases acme_db) = [Some 128]"
    by (simp add: acme_db_def acme_case_def)
  show ?thesis
    using a b c t v w
      statutory_deadline_fixed_at_creation [OF a, of foia_request "''SAR-202403-00000001''"
        "\<lambda>t. True" 15000000000000 7 True 200 1 retype_update simple_clear]
    by simp
qed

lemma get_after_store:
  assumes "get_sar_case_db sar_id uid d = Some c" "case_id c' = sar_id" "user_id c' = uid"
  shows "get_sar_case_db sar_id uid (store_case c' d) = Some c'"
proof -
  have "find (\<lambda>c. case_id c = sar_id \<and> user_id c = uid) xs = Some c \<Longrightarrow>
        find (\<lambda>c. case_id c = sar_id \<and> user_id c = uid)
          (map (\<lambda>x. if case_id x = case_id c' then c' else x) xs) = Some c'" for xs
    using assms(2,3) by (induction xs) (auto split: if_splits)
  with assms(1) show ?thesis by (simp add: get_sar_case_db_def store_case_def)
qed

lemma escalation_cases:
  assumes "get_sar_case_db sar_id uid d = Some c"
    and "(case x_ico_reference x of None \<Rightarrow> gen_ref | Some r \<Rightarrow> if r = [] then gen_ref else r)
           \<notin> set (map ico_reference (escalations d))"
  shows "cases (snd (create_ico_escalation_db True accepts gen_ref sar_id x uid d)) =
           cases (store_case (c\<lparr>status := Some Escalated\<rparr>) d)"
proof (cases "x_ico_investigation_deadline x")
  case None
  with assms show ?thesis
    by (simp add: create_ico_escalation_db_def Let_def store_case_def)
next
  case (Some dl)
  show ?thesis
  proof (cases "minus_days (combine_min dl) 7")
    case (Inl e)
    with Some assms show ?thesis
      by (simp add: create_ico_escalation_db_def create_ico_deadline_reminder_def Let_def
          store_case_def)
  next
    case (Inr t)
    with Some assms show ?thesis
      by (simp add: create_ico_escalation_db_def create_ico_deadline_reminder_def
          create_reminder_def Let_def store_case_def)
  qed
qed

section \<open>The recomputation only writes the status\<close>

lemma recompute_db_eq:
  "recompute_status_db u today c =
     (case or_else (extended_deadline c) (or_else (custom_deadline c) (statutory_deadline c)) of
        None \<Rightarrow> Inl TypeError
      | Some dl \<Rightarrow>
          Inr (c\<lparr>status :=
                 (if field_value (u_response_received u) = Some True then Some Responded
                  else if today > dl \<and> status c = Some Pending then Some Overdue
                  else status c)\<rparr>))"
  by (simp add: recompute_status_db_def Let_def split: option.splits)

lemma recompute_simple_eq:
  "recompute_status_simple today c =
     c\<lparr>status :=
         (case or_else (extended_deadline c) (or_else (custom_deadline c) (statutory_deadline c)) of
            None \<Rightarrow> status c
          | Some dl \<Rightarrow> if today > dl \<and> status c = Some Pending then Some Overdue else status c)\<rparr>"
  by (simp add: recompute_status_simple_def split: option.splits)

lemma set_field_twice: "set_field f (set_field f x) = set_field f x"
  by (cases f) (simp_all add: set_field_def)

lemma apply_fields_again:
  "apply_fields u ((apply_fields u c)\<lparr>status := s\<rparr>) =
     (apply_fields u c)\<lparr>status := set_field (u_status u) s\<rparr>"
  by (simp add: apply_fields_def set_field_twice)

lemma apply_fields_status: "status (apply_fields u c) = set_field (u_status u) (status c)"
  by (simp add: apply_fields_def)

section \<open>Status recomputation\<close>

text \<open>
  C7. The status recomputation is idempotent: run a second time on its own result, with the
  same update object and the same current date, it returns that result again (and an
  exception of the first run is the outcome of both). This holds for the pass inside
  \<open>update_sar_case_db\<close>, for the pass inside \<open>update_sar_case_simple_db\<close>, and for the
  field assignment of \<open>update_sar_case_db\<close> followed by its pass.
\<close>

theorem recompute_status_idempotent:
  "(case recompute_status_db sar_data today c of
      Inl e \<Rightarrow> Inl e
    | Inr c' \<Rightarrow> recompute_status_db sar_data today c') = recompute_status_db sar_data today c \<and>
   recompute_status_simple today (recompute_status_simple today c) =
     recompute_status_simple today c \<and>
   (case recompute_status_db sar_data today (apply_fields sar_data c) of
      Inl e \<Rightarrow> Inl e
    | Inr c' \<Rightarrow> recompute_status_db sar_data today (apply_fields sar_data c')) =
     recompute_status_db sar_data today (apply_fields sar_data c)"
proof (intro conjI)
  show "(case recompute_status_db sar_data today c of
      Inl e \<Rightarrow> Inl e
    | Inr c' \<Rightarrow> recompute_status_db sar_data today c') = recompute_status_db sar_data today c"
    by (simp add: recompute_db_eq split: option.splits)
next
  show "recompute_status_simple today (recompute_status_simple today c) =
     recompute_status_simple today c"
    by (simp add: recompute_simple_eq split: option.splits)
next
  show "(case recompute_status_db sar_data today (apply_fields sar_data c) of
      Inl e \<Rightarrow> Inl e
    | Inr c' \<Rightarrow> recompute_status_db sar_data today (apply_fields sar_data c')) =
     recompute_status_db sar_data today (apply_fields sar_data c)"
  proof (cases "u_status sar_data")
    case Unset
    then show ?thesis
      by (simp add: recompute_db_eq apply_fields_again set_field_def split: option.splits)
  next
    case (Given v)
    then show ?thesis
      by (simp add: recompute_db_eq apply_fields_again apply_fields_status set_field_def
          split: option.splits)
  qed
qed

text \<open>
  C2, as stated, fails: the response check of \<open>update_sar_case_db\<close> has no condition on
  the current status, so an update that supplies \<open>response_received = true\<close> turns an
  Escalated case into a Responded one.
\<close>

theorem escalated_overwritten_counterexample:
  "status escalated_case = Some Escalated \<and>
   map_sum id status (recompute_status_db response_update 200 escalated_case) = Inr (Some Responded)"
  by (simp add: recompute_db_eq response_update_def no_update_def escalated_case_def acme_case_def
      field_value_def or_else_def)

text \<open>
  C2, amended. Once the status is Escalated or Complete, the pass of
  \<open>update_sar_case_simple_db\<close> leaves the case as it is, and the pass of
  \<open>update_sar_case_db\<close>, run on a case that has a deadline, leaves it as it is unless the
  update supplies \<open>response_received = true\<close>, in which case the status becomes Responded.
  Escalation creation, when its regulator reference is not stored yet and the session that
  loaded the case is the one committed, stores the status Escalated for the case it finds,
  whatever its status was and whether or not the reminder that follows is made.
\<close>

theorem sticky_unless_response_supplied:
  assumes "status c = Some Escalated \<or> status c = Some Complete"
  shows "recompute_status_simple today c = c \<and>
         (or_else (extended_deadline c) (or_else (custom_deadline c) (statutory_deadline c)) \<noteq> None
            \<longrightarrow> recompute_status_db u today c =
                  Inr (if field_value (u_response_received u) = Some True
                       then c\<lparr>status := Some Responded\<rparr> else c)) \<and>
         (get_sar_case_db sar_id uid d = Some k \<and>
          (case x_ico_reference x of None \<Rightarrow> gen_ref | Some r \<Rightarrow> if r = [] then gen_ref else r)
            \<notin> set (map ico_reference (escalations d))
            \<longrightarrow> get_sar_case_db sar_id uid
                  (snd (create_ico_escalation_db True accepts gen_ref sar_id x uid d)) =
                Some (k\<lparr>status := Some Escalated\<rparr>))"
proof (intro conjI impI)
  show "recompute_status_simple today c = c"
    using assms by (auto simp: recompute_simple_eq split: option.splits)
next
  assume "or_else (extended_deadline c) (or_else (custom_deadline c) (statutory_deadline c)) \<noteq> None"
  then show "recompute_status_db u today c =
           Inr (if field_value (u_response_received u) = Some True
                then c\<lparr>status := Some Responded\<rparr> else c)"
    using assms by (auto simp: recompute_db_eq)
next
  assume h: "get_sar_case_db sar_id uid d = Some k \<and>
          (case x_ico_reference x of None \<Rightarrow> gen_ref | Some r \<Rightarrow> if r = [] then gen_ref else r)
            \<notin> set (map ico_reference (escalations d))"
  then have g: "get_sar_case_db sar_id uid d = Some k"
    by simp
  have "get_sar_case_db sar_id uid (store_case (k\<lparr>status := Some Escalated\<rparr>) d) =
          Some (k\<lparr>status := Some Escalated\<rparr>)"
    using get_case_id [OF g] by (intro get_after_store [OF g]) simp_all
  moreover have "cases (snd (create_ico_escalation_db True accepts gen_ref sar_id x uid d)) =
           cases (store_case (k\<lparr>status := Some Escalated\<rparr>) d)"
    using h by (intro escalation_cases) simp_all
  ultimately show "get_sar_case_db sar_id uid
               (snd (create_ico_escalation_db True accepts gen_ref sar_id x uid d)) =
             Some (k\<lparr>status := Some Escalated\<rparr>)"
    by (simp add: get_sar_case_db_def)
qed

theorem sticky_unless_response_supplied_witness:
  "(status escalated_case = Some Escalated \<or> status escalated_case = Some Complete) \<and>
   or_else (extended_deadline escalated_case)
     (or_else (custom_deadline escalated_case) (statutory_deadline escalated_case)) = Some 128 \<and>
   get_sar_case_db 1 7 acme_db = Some acme_case \<and>
   ''ICO-202405-0000ABCD'' \<notin> set (map ico_reference (escalations acme_db)) \<and>
   recompute_status_simple 200 escalated_case = escalated_case \<and>
   recompute_status_db no_update 200 escalated_case = Inr escalated_case \<and>
   get_sar_case_db 1 7
     (snd (create_ico_escalation_db True (\<lambda>t. True) ''ICO-202405-0000ABCD'' 1 escalation_request 7
             acme_db)) =
     Some (acme_case\<lparr>status := Some Escalated\<rparr>)"
proof -
  have a: "status escalated_case = Some Escalated \<or> status escalated_case = Some Complete"
    by (simp add: escalated_case_def)
  have b: "or_else (extended_deadline escalated_case)
     (or_else (custom_deadline escalated_case) (statutory_deadline escalated_case)) = Some 128"
    by (simp add: escalated_case_def acme_case_def or_else_def)
  have c: "get_sar_case_db 1 7 acme_db = Some acme_case"
    by (simp add: get_sar_case_db_def acme_db_def acme_case_def)
  have e: "''ICO-202405-0000ABCD'' \<notin> set (map ico_reference (escalations acme_db))"
    by (simp add: acme_db_def)
  have f: "(case x_ico_reference escalation_request of None \<Rightarrow> ''ICO-202405-0000ABCD''
            | Some r \<Rightarrow> if r = [] then ''ICO-202405-0000ABCD'' else r) = ''ICO-202405-0000ABCD''"
    by (simp add: escalation_request_def)
  have n: "field_value (u_response_received no_update) \<noteq> Some True"
    by (simp add: no_update_def field_value_def)
  show ?thesis
    using a b c e f n sticky_unless_response_supplied [OF a, where today = 200 and u = no_update
        and sar_id = 1 and uid = 7 and d = acme_db and k = acme_case and x = escalation_request
        and gen_ref = "''ICO-202405-0000ABCD''" and accepts = "\<lambda>t. True"]
    by simp
qed

text \<open>
  C4, as stated, fails: the pass of \<open>update_sar_case_db\<close> reads the flag of the update
  object, not the stored flag, and the pass of \<open>update_sar_case_simple_db\<close> has no response
  check. A case answered by one update and set back to Pending by the next keeps
  \<open>response_received = true\<close> with status Pending through both passes.
\<close>

theorem response_with_pending_counterexample:
  "map (\<lambda>c. (response_received c, status c))
     (cases (snd (update_sar_case_db True 120 1 reopen_update 7
                    (snd (update_sar_case_db True 120 1 response_update 7 acme_db))))) =
     [(Some True, Some Pending)] \<and>
   map (\<lambda>c. (response_received c, status c))
     (cases (snd (update_sar_case_simple_db 120 1 simple_clear 7
                    \<lparr>cases = [answered_pending_case], reminders = [], escalations = []\<rparr>))) =
     [(Some True, Some Pending)]"
  by (simp add: update_sar_case_db_def update_sar_case_simple_db_def get_sar_case_db_def
      store_case_def recompute_db_eq recompute_simple_eq apply_fields_def apply_fields_simple_def
      set_field_def field_value_def or_else_def acme_db_def acme_case_def answered_pending_case_def
      response_update_def reopen_update_def no_update_def simple_clear_def Let_def)

text \<open>
  C4, amended. In \<open>update_sar_case_db\<close>, when the update supplies
  \<open>response_received = true\<close> and the case has a deadline, the stored flag is true and the
  status after the pass is Responded, whatever the status was before (Pending and Overdue
  included) and however long the deadline has passed: the response check comes before the
  overdue check.
\<close>

theorem response_supplied_gives_responded:
  assumes "field_value (u_response_received u) = Some True"
    and "or_else (extended_deadline (apply_fields u c))
           (or_else (custom_deadline (apply_fields u c)) (statutory_deadline (apply_fields u c))) =
         Some dl"
  shows "recompute_status_db u today (apply_fields u c) =
           Inr ((apply_fields u c)\<lparr>status := Some Responded\<rparr>) \<and>
         response_received (apply_fields u c) = Some True"
proof
  show "recompute_status_db u today (apply_fields u c) =
           Inr ((apply_fields u c)\<lparr>status := Some Responded\<rparr>)"
    using assms by (simp add: recompute_db_eq)
next
  from assms(1) have "u_response_received u = Given (Some True)"
    by (cases "u_response_received u") (simp_all add: field_value_def)
  then show "response_received (apply_fields u c) = Some True"
    by (simp add: apply_fields_def set_field_def)
qed

theorem response_supplied_gives_responded_witness:
  "field_value (u_response_received response_update) = Some True \<and>
   or_else (extended_deadline (apply_fields response_update acme_case))
     (or_else (custom_deadline (apply_fields response_update acme_case))
        (statutory_deadline (apply_fields response_update acme_case))) = Some 128 \<and>
   status acme_case = Some Pending \<and> (128::int) < 200 \<and>
   map_sum id status (recompute_status_db response_update 200 (apply_fields response_update acme_case)) =
     Inr (Some Responded) \<and>
   response_received (apply_fields response_update acme_case) = Some True"
proof -
  have a: "field_value (u_response_received response_update) = Some True"
    by (simp add: response_update_def field_value_def)
  have b: "or_else (extended_deadline (apply_fields response_update acme_case))
     (or_else (custom_deadline (apply_fields response_update acme_case))
        (statutory_deadline (apply_fields response_update acme_case))) = Some 128"
    by (simp add: apply_fields_def response_update_def no_update_def set_field_def acme_case_def
        or_else_def)
  have c: "status acme_case = Some Pending"
    by (simp add: acme_case_def)
  show ?thesis
    using a b c response_supplied_gives_responded [OF a b, of 200] by simp
qed

text \<open>
  C5, as stated, fails: with no deadline on a Pending case the pass of
  \<open>update_sar_case_simple_db\<close> skips the overdue check and returns the case unchanged, and
  the pass of \<open>update_sar_case_db\<close> stops with \<open>TypeError\<close>, also on a Complete case that
  could not become Overdue. Neither raises a configuration error.
\<close>

theorem no_deadline_counterexample:
  "or_else (extended_deadline no_deadline_case)
     (or_else (custom_deadline no_deadline_case) (statutory_deadline no_deadline_case)) = None \<and>
   status no_deadline_case = Some Pending \<and>
   recompute_status_simple 200 no_deadline_case = no_deadline_case \<and>
   recompute_status_db no_update 200 no_deadline_case = Inl TypeError \<and>
   recompute_status_db no_update 200 (no_deadline_case\<lparr>status := Some Complete\<rparr>) = Inl TypeError"
  by (simp add: recompute_db_eq recompute_simple_eq no_deadline_case_def acme_case_def or_else_def)

text \<open>
  C5, amended. When at least one of the custom, extended and statutory deadlines is present,
  the recomputation of \<open>update_sar_case_db\<close> returns a case and raises nothing. The
  recomputation of \<open>update_sar_case_simple_db\<close> never raises, and when no deadline is
  present it leaves the case unchanged.
\<close>

theorem recompute_raises_nothing_with_a_deadline:
  "(statutory_deadline c \<noteq> None \<or> extended_deadline c \<noteq> None \<or> custom_deadline c \<noteq> None \<longrightarrow>
      (\<exists>c'. recompute_status_db u today c = Inr c')) \<and>
   (statutory_deadline c = None \<and> extended_deadline c = None \<and> custom_deadline c = None \<longrightarrow>
      recompute_status_simple today c = c)"
  by (auto simp: recompute_db_eq recompute_simple_eq or_else_def split: option.splits)

theorem recompute_raises_nothing_with_a_deadline_witness:
  "statutory_deadline acme_case \<noteq> None \<and>
   (\<exists>c'. recompute_status_db response_update 200 acme_case = Inr c') \<and>
   statutory_deadline no_deadline_case = None \<and> extended_deadline no_deadline_case = None \<and>
   custom_deadline no_deadline_case = None \<and>
   recompute_status_simple 200 no_deadline_case = no_deadline_case"
proof -
  have a: "statutory_deadline acme_case \<noteq> None"
    by (simp add: acme_case_def)
  have b: "statutory_deadline no_deadline_case = None \<and> extended_deadline no_deadline_case = None \<and>
   custom_deadline no_deadline_case = None"
    by (simp add: no_deadline_case_def acme_case_def)
  show ?thesis
    using a b recompute_raises_nothing_with_a_deadline [of acme_case response_update 200]
      recompute_raises_nothing_with_a_deadline [of no_deadline_case response_update 200]
    by simp
qed

section \<open>Which deadline governs\<close>

text \<open>
  C1. The upcoming-deadline rows and the calendar deadline events take the custom deadline
  before the extended one, as the claim says; the status recomputation of both update
  operations takes the extended deadline before the custom one. On day 100, a Pending case
  with custom deadline 90 and extended deadline 110 is listed as overdue under its Custom
  deadline and shown overdue in the calendar, and both updates leave it Pending, whichever
  way sessions are handed out.
\<close>

theorem update_takes_extended_before_custom:
  "map status (cases (snd (update_sar_case_db True 100 1 no_update 7 both_db))) = [Some Pending] \<and>
   map status (cases (snd (update_sar_case_db False 100 1 no_update 7 both_db))) = [Some Pending] \<and>
   map status (cases (snd (update_sar_case_simple_db 100 1
      \<lparr>s_organization_name = Unset, s_custom_deadline = Unset\<rparr> 7 both_db))) = [Some Pending] \<and>
   map (\<lambda>r. (deadline_date r, dr_is_overdue r, deadline_type r))
     (get_upcoming_deadlines_data 100 7 30 both_db) = [(90, True, ''Custom'')] \<and>
   map_sum id (map (\<lambda>e. (event_type e, event_date e, is_overdue e)))
     (get_calendar_events_data noon_100 7 (Some 85) (Some 120) both_db) =
     Inr [(''Deadline'', combine_min 90, True)]"
proof (intro conjI)
  show "map status (cases (snd (update_sar_case_db True 100 1 no_update 7 both_db))) = [Some Pending]"
    by (simp add: update_sar_case_db_def get_sar_case_db_def store_case_def recompute_db_eq
        apply_fields_def set_field_def field_value_def or_else_def both_db_def both_case_def
        acme_case_def no_update_def)
next
  show "map status (cases (snd (update_sar_case_db False 100 1 no_update 7 both_db))) = [Some Pending]"
    by (simp add: update_sar_case_db_def get_sar_case_db_def store_case_def recompute_db_eq
        apply_fields_def set_field_def field_value_def or_else_def both_db_def both_case_def
        acme_case_def no_update_def)
next
  show "map status (cases (snd (update_sar_case_simple_db 100 1
      \<lparr>s_organization_name = Unset, s_custom_deadline = Unset\<rparr> 7 both_db))) = [Some Pending]"
    by (simp add: update_sar_case_simple_db_def get_sar_case_db_def store_case_def
        recompute_simple_eq apply_fields_simple_def set_field_def or_else_def both_db_def
        both_case_def acme_case_def Let_def)
next
  show "map (\<lambda>r. (deadline_date r, dr_is_overdue r, deadline_type r))
     (get_upcoming_deadlines_data 100 7 30 both_db) = [(90, True, ''Custom'')]"
    by (simp add: get_upcoming_deadlines_data_def List.map_filter_def upcoming_row_def
        deadline_type_of_def status_in_def or_else_def both_db_def both_case_def acme_case_def
        Let_def)
next
  have "date_of noon_100 = 100"
    by (simp add: date_of_def noon_100_def usec_per_day_def)
  then show "map_sum id (map (\<lambda>e. (event_type e, event_date e, is_overdue e)))
     (get_calendar_events_data noon_100 7 (Some 85) (Some 120) both_db) =
     Inr [(''Deadline'', combine_min 90, True)]"
    by (simp add: get_calendar_events_data_def calendar_case_filter_def creation_filter_def
        deadline_event_def in_window_def status_in_def or_else_def both_db_def both_case_def
        acme_case_def)
qed

section \<open>Reminder dates\<close>

text \<open>
  C6. Scheduled at noon of day 100, the reminder for a case deadline on day 101 is dated
  midnight of day 100, which is before the scheduling moment: the test that moves a reminder
  to tomorrow looks at the deadline, not at the deadline minus one day. The reminder for a
  regulator deadline on day 100 is dated midnight of day 93: \<open>create_ico_deadline_reminder\<close>
  has no such test at all. Under the validation of \<open>app/schemas.py\<close> both calls raise and
  no reminder is stored.
\<close>

theorem reminder_not_after_scheduling_moment:
  "date_of noon_100 = 100 \<and>
   map reminder_date (reminders (snd (create_deadline_reminder (\<lambda>t. True) noon_100 1 7 101 acme_db))) =
     [Some (combine_min 100)] \<and>
   combine_min 100 < noon_100 \<and>
   create_deadline_reminder (reminder_date_cannot_be_past noon_100) noon_100 1 7 101 acme_db =
     (Inl ValidationError, acme_db) \<and>
   map reminder_date (reminders (snd (create_ico_deadline_reminder (\<lambda>t. True) 1 7 100 acme_db))) =
     [Some (combine_min 93)] \<and>
   combine_min 93 < noon_100 \<and>
   create_ico_deadline_reminder (reminder_date_cannot_be_past noon_100) 1 7 100 acme_db =
     (Inl ValidationError, acme_db)"
  by (simp add: create_deadline_reminder_def create_ico_deadline_reminder_def create_reminder_def
      reminder_date_cannot_be_past_def date_of_def noon_100_def usec_per_day_def combine_min_def
      combine_max_def minus_days_def add_days_def date_min_def date_max_def acme_db_def Let_def)

section \<open>Dashboard counts\<close>

lemma some_deadline_ge:
  "(ge_date (statutory_deadline c) today \<or> ge_date (extended_deadline c) today \<or>
    ge_date (custom_deadline c) today) =
   (\<exists>v. Some v \<in> {statutory_deadline c, extended_deadline c, custom_deadline c} \<and> today \<le> v)"
  by (auto simp: ge_date_def split: option.splits)

lemma some_deadline_lt:
  "(lt_date (statutory_deadline c) today \<or> lt_date (extended_deadline c) today \<or>
    lt_date (custom_deadline c) today) =
   (\<exists>v. Some v \<in> {statutory_deadline c, extended_deadline c, custom_deadline c} \<and> v < today)"
  by (auto simp: lt_date_def split: option.splits)

lemma pending_or_overdue:
  "status_in (status c) [Pending, Overdue] = (status c = Some Pending \<or> status c = Some Overdue)"
  by (auto simp: status_in_def split: option.splits)

text \<open>
  C10. The upcoming count of the dashboard is the number of the user's Pending or Overdue
  cases that have the statutory, the extended or the custom deadline on or after today; the
  overdue count is the number of those that have one of the three before today. Each field
  is tested on its own, not the effective deadline, so a case with one of the three before
  today and another on or after today adds one to \<open>upcoming_deadlines\<close> and one to
  \<open>overdue_deadlines\<close>.
\<close>

theorem counted_upcoming_and_overdue:
  "upcoming_deadlines (get_dashboard_data today uid d) =
     length [k \<leftarrow> cases d. user_id k = uid \<and> (status k = Some Pending \<or> status k = Some Overdue) \<and>
        (\<exists>v. Some v \<in> {statutory_deadline k, extended_deadline k, custom_deadline k} \<and> today \<le> v)] \<and>
   overdue_deadlines (get_dashboard_data today uid d) =
     length [k \<leftarrow> cases d. user_id k = uid \<and> (status k = Some Pending \<or> status k = Some Overdue) \<and>
        (\<exists>v. Some v \<in> {statutory_deadline k, extended_deadline k, custom_deadline k} \<and> v < today)] \<and>
   (user_id c = uid \<and> (status c = Some Pending \<or> status c = Some Overdue) \<and>
    Some a \<in> {statutory_deadline c, extended_deadline c, custom_deadline c} \<and> a < today \<and>
    Some b \<in> {statutory_deadline c, extended_deadline c, custom_deadline c} \<and> today \<le> b \<longrightarrow>
      upcoming_deadlines (get_dashboard_data today uid (d\<lparr>cases := xs @ c # ys\<rparr>)) =
        Suc (upcoming_deadlines (get_dashboard_data today uid (d\<lparr>cases := xs @ ys\<rparr>))) \<and>
      overdue_deadlines (get_dashboard_data today uid (d\<lparr>cases := xs @ c # ys\<rparr>)) =
        Suc (overdue_deadlines (get_dashboard_data today uid (d\<lparr>cases := xs @ ys\<rparr>))))"
proof (intro conjI impI)
  have "upcoming_filter uid today =
          (\<lambda>k. user_id k = uid \<and> (status k = Some Pending \<or> status k = Some Overdue) \<and>
             (\<exists>v. Some v \<in> {statutory_deadline k, extended_deadline k, custom_deadline k} \<and> today \<le> v))"
    unfolding upcoming_filter_def some_deadline_ge pending_or_overdue by (rule refl)
  then show "upcoming_deadlines (get_dashboard_data today uid d) =
     length [k \<leftarrow> cases d. user_id k = uid \<and> (status k = Some Pending \<or> status k = Some Overdue) \<and>
        (\<exists>v. Some v \<in> {statutory_deadline k, extended_deadline k, custom_deadline k} \<and> today \<le> v)]"
    by (simp add: get_dashboard_data_def count_where_def)
next
  have "overdue_filter uid today =
          (\<lambda>k. user_id k = uid \<and> (status k = Some Pending \<or> status k = Some Overdue) \<and>
             (\<exists>v. Some v \<in> {statutory_deadline k, extended_deadline k, custom_deadline k} \<and> v < today))"
    unfolding overdue_filter_def some_deadline_lt pending_or_overdue by (rule refl)
  then show "overdue_deadlines (get_dashboard_data today uid d) =
     length [k \<leftarrow> cases d. user_id k = uid \<and> (status k = Some Pending \<or> status k = Some Overdue) \<and>
        (\<exists>v. Some v \<in> {statutory_deadline k, extended_deadline k, custom_deadline k} \<and> v < today)]"
    by (simp add: get_dashboard_data_def count_where_def)
next
  assume h: "user_id c = uid \<and> (status c = Some Pending \<or> status c = Some Overdue) \<and>
    Some a \<in> {statutory_deadline c, extended_deadline c, custom_deadline c} \<and> a < today \<and>
    Some b \<in> {statutory_deadline c, extended_deadline c, custom_deadline c} \<and> today \<le> b"
  then have "upcoming_filter uid today c"
    unfolding upcoming_filter_def some_deadline_ge pending_or_overdue by blast
  then show "upcoming_deadlines (get_dashboard_data today uid (d\<lparr>cases := xs @ c # ys\<rparr>)) =
        Suc (upcoming_deadlines (get_dashboard_data today uid (d\<lparr>cases := xs @ ys\<rparr>)))"
    by (simp add: get_dashboard_data_def count_where_def)
next
  assume h: "user_id c = uid \<and> (status c = Some Pending \<or> status c = Some Overdue) \<and>
    Some a \<in> {statutory_deadline c, extended_deadline c, custom_deadline c} \<and> a < today \<and>
    Some b \<in> {statutory_deadline c, extended_deadline c, custom_deadline c} \<and> today \<le> b"
  then have "overdue_filter uid today c"
    unfolding overdue_filter_def some_deadline_lt pending_or_overdue by blast
  then show "overdue_deadlines (get_dashboard_data today uid (d\<lparr>cases := xs @ c # ys\<rparr>)) =
        Suc (overdue_deadlines (get_dashboard_data today uid (d\<lparr>cases := xs @ ys\<rparr>)))"
    by (simp add: get_dashboard_data_def count_where_def)
qed

theorem counted_upcoming_and_overdue_witness:
  "user_id both_case = 7 \<and> status both_case = Some Pending \<and>
   Some 90 \<in> {statutory_deadline both_case, extended_deadline both_case, custom_deadline both_case} \<and>
   (90::int) < 100 \<and>
   Some 110 \<in> {statutory_deadline both_case, extended_deadline both_case, custom_deadline both_case} \<and>
   (100::int) \<le> 110 \<and>
   upcoming_deadlines (get_dashboard_data 100 7 dashboard_db) = 2 \<and>
   overdue_deadlines (get_dashboard_data 100 7 dashboard_db) = 1 \<and>
   upcoming_deadlines (get_dashboard_data 100 7
     (dashboard_db\<lparr>cases := [acme_late, later_case, both_case\<lparr>case_id := 4, user_id := 8\<rparr>]\<rparr>)) = 1 \<and>
   overdue_deadlines (get_dashboard_data 100 7
     (dashboard_db\<lparr>cases := [acme_late, later_case, both_case\<lparr>case_id := 4, user_id := 8\<rparr>]\<rparr>)) = 0"
proof -
  have a: "user_id both_case = 7" "status both_case = Some Pending"
    by (simp_all add: both_case_def acme_case_def)
  have c: "Some 90 \<in> {statutory_deadline both_case, extended_deadline both_case, custom_deadline both_case}"
    "Some 110 \<in> {statutory_deadline both_case, extended_deadline both_case, custom_deadline both_case}"
    by (simp_all add: both_case_def)
  have f: "dashboard_db\<lparr>cases := [both_case, acme_late, later_case,
             both_case\<lparr>case_id := 4, user_id := 8\<rparr>]\<rparr> = dashboard_db"
    by (simp add: dashboard_db_def)
  have g: "upcoming_deadlines (get_dashboard_data 100 7
     (dashboard_db\<lparr>cases := [acme_late, later_case, both_case\<lparr>case_id := 4, user_id := 8\<rparr>]\<rparr>)) = 1 \<and>
   overdue_deadlines (get_dashboard_data 100 7
     (dashboard_db\<lparr>cases := [acme_late, later_case, both_case\<lparr>case_id := 4, user_id := 8\<rparr>]\<rparr>)) = 0"
    by (simp add: get_dashboard_data_def count_where_def upcoming_filter_def overdue_filter_def
        status_in_def ge_date_def lt_date_def acme_late_def later_case_def both_case_def
        acme_case_def)
  have n: "(90::int) < 100" "(100::int) \<le> 110"
    by simp_all
  have "upcoming_deadlines (get_dashboard_data 100 7 (dashboard_db\<lparr>cases := [] @ both_case #
            [acme_late, later_case, both_case\<lparr>case_id := 4, user_id := 8\<rparr>]\<rparr>)) =
          Suc (upcoming_deadlines (get_dashboard_data 100 7 (dashboard_db\<lparr>cases := [] @
            [acme_late, later_case, both_case\<lparr>case_id := 4, user_id := 8\<rparr>]\<rparr>))) \<and>
        overdue_deadlines (get_dashboard_data 100 7 (dashboard_db\<lparr>cases := [] @ both_case #
            [acme_late, later_case, both_case\<lparr>case_id := 4, user_id := 8\<rparr>]\<rparr>)) =
          Suc (overdue_deadlines (get_dashboard_data 100 7 (dashboard_db\<lparr>cases := [] @
            [acme_late, later_case, both_case\<lparr>case_id := 4, user_id := 8\<rparr>]\<rparr>)))"
    using counted_upcoming_and_overdue [where c = both_case and uid = 7 and a = 90 and b = 110
        and today = 100 and d = dashboard_db and xs = "[]"
        and ys = "[acme_late, later_case, both_case\<lparr>case_id := 4, user_id := 8\<rparr>]"] a c n
    by blast
  then have "upcoming_deadlines (get_dashboard_data 100 7 dashboard_db) =
          Suc (upcoming_deadlines (get_dashboard_data 100 7
            (dashboard_db\<lparr>cases := [acme_late, later_case, both_case\<lparr>case_id := 4, user_id := 8\<rparr>]\<rparr>))) \<and>
        overdue_deadlines (get_dashboard_data 100 7 dashboard_db) =
          Suc (overdue_deadlines (get_dashboard_data 100 7
            (dashboard_db\<lparr>cases := [acme_late, later_case, both_case\<lparr>case_id := 4, user_id := 8\<rparr>]\<rparr>)))"
    by (simp only: append_Nil f)
  with a c g show ?thesis
    by simp
qed

section \<open>Loops that may raise\<close>

lemma collect_total:
  "(\<And>x. x \<in> set xs \<Longrightarrow> \<exists>y. f x = Inr y) \<Longrightarrow> \<exists>ys. collect f xs = Inr ys"
proof (induction xs)
  case Nil
  then show ?case by simp
next
  case (Cons x xs)
  then obtain y where y: "f x = Inr y" by auto
  from Cons obtain ys where "collect f xs = Inr ys" by auto
  with y show ?case by simp
qed

lemma collect_rel:
  "collect f xs = Inr ys \<Longrightarrow> list_all2 (\<lambda>x y. f x = Inr y) xs ys"
proof (induction xs arbitrary: ys)
  case Nil
  then show ?case by simp
next
  case (Cons x xs)
  then show ?case
    by (auto split: sum.splits)
qed




lemma rel_right: "list_all2 R xs ys \<Longrightarrow> y \<in> set ys \<Longrightarrow> \<exists>x \<in> set xs. R x y"
  by (induction rule: list_all2_induct) auto

lemma rel_map:
  "list_all2 R xs ys \<Longrightarrow> (\<And>x y. R x y \<Longrightarrow> g y = x) \<Longrightarrow> map g ys = xs"
  by (induction rule: list_all2_induct) auto

section \<open>Organization performance\<close>

lemma on_time_filter_fn:
  "on_time_filter uid org =
     (\<lambda>c. (user_id c = uid \<and> organization_name c = org) \<and> response_received c = Some True \<and>
          (\<exists>r s. response_date c = Some r \<and> statutory_deadline c = Some s \<and> r \<le> s))"
  by (rule ext) (auto simp: on_time_filter_def split: option.splits)

lemma late_filter_fn:
  "late_filter uid org =
     (\<lambda>c. (user_id c = uid \<and> organization_name c = org) \<and> response_received c = Some True \<and>
          (\<exists>r s. response_date c = Some r \<and> statutory_deadline c = Some s \<and> s < r))"
  by (rule ext) (auto simp: late_filter_def split: option.splits)

lemma ignored_filter_fn:
  "ignored_filter uid org today =
     (\<lambda>c. (user_id c = uid \<and> organization_name c = org) \<and> response_received c = Some False \<and>
          (\<exists>s. statutory_deadline c = Some s \<and> s < today))"
  by (rule ext) (auto simp: ignored_filter_def lt_date_def split: option.splits)

lemma response_filter_fn:
  "response_filter uid org =
     (\<lambda>c. (user_id c = uid \<and> organization_name c = org) \<and> response_received c = Some True \<and>
          response_date c \<noteq> None)"
  by (rule ext) (auto simp: response_filter_def)

lemma organization_row_value:
  "organization_row fdiv fmul extract_day today uid cs org =
     Inr \<lparr>p_organization_name = org,
          total_sars = length [c \<leftarrow> cs. user_id c = uid \<and> organization_name c = org],
          responded_on_time =
            length [c \<leftarrow> cs. (user_id c = uid \<and> organization_name c = org) \<and>
               response_received c = Some True \<and>
               (\<exists>r s. response_date c = Some r \<and> statutory_deadline c = Some s \<and> r \<le> s)],
          responded_late =
            length [c \<leftarrow> cs. (user_id c = uid \<and> organization_name c = org) \<and>
               response_received c = Some True \<and>
               (\<exists>r s. response_date c = Some r \<and> statutory_deadline c = Some s \<and> s < r)],
          ignored =
            length [c \<leftarrow> cs. (user_id c = uid \<and> organization_name c = org) \<and>
               response_received c = Some False \<and>
               (\<exists>s. statutory_deadline c = Some s \<and> s < today)],
          average_response_time =
            (if [c \<leftarrow> cs. (user_id c = uid \<and> organization_name c = org) \<and>
                   response_received c = Some True \<and> response_date c \<noteq> None] = []
             then None
             else Some (fdiv
               (sum_list (map (\<lambda>c. case extract_day (response_date c) (submission_date c) of
                                     None \<Rightarrow> 0 | Some v \<Rightarrow> v)
                  [c \<leftarrow> cs. (user_id c = uid \<and> organization_name c = org) \<and>
                     response_received c = Some True \<and> response_date c \<noteq> None]))
               (int (length [c \<leftarrow> cs. (user_id c = uid \<and> organization_name c = org) \<and>
                     response_received c = Some True \<and> response_date c \<noteq> None])))),
          compliance_rating =
            (if [c \<leftarrow> cs. user_id c = uid \<and> organization_name c = org] = [] then None
             else Some (fmul
               (fdiv
                  (int (length [c \<leftarrow> cs. (user_id c = uid \<and> organization_name c = org) \<and>
                     response_received c = Some True \<and>
                     (\<exists>r s. response_date c = Some r \<and> statutory_deadline c = Some s \<and> r \<le> s)]))
                  (int (length [c \<leftarrow> cs. user_id c = uid \<and> organization_name c = org])))
               100))\<rparr>"
  unfolding organization_row_def Let_def on_time_filter_fn late_filter_fn ignored_filter_fn
    response_filter_fn count_where_def truediv_def sum_not_none_def
  by (simp add: comp_def)

text \<open>
  C8. The row computed for an organization has, as compliance rating, Python's quotient of
  the number of on-time responses by the number of requests, times 100, and no rating when
  the organization has no request: the division is not made then. Its average response
  time is the quotient of the summed day counts of the cases that were answered and have a
  response date by their number, and is absent when there is no such case. The report
  consists of these rows, one for each organization name among the user's cases, raises
  nothing, and each of its rows has at least one request and therefore a rating.
\<close>

theorem rating_and_average_of_performance_rows:
  "(\<exists>row. organization_row fdiv fmul extract_day today uid cs org = Inr row \<and>
      p_organization_name row = org \<and>
      total_sars row = length [c \<leftarrow> cs. user_id c = uid \<and> organization_name c = org] \<and>
      responded_on_time row =
        length [c \<leftarrow> cs. (user_id c = uid \<and> organization_name c = org) \<and>
           response_received c = Some True \<and>
           (\<exists>r s. response_date c = Some r \<and> statutory_deadline c = Some s \<and> r \<le> s)] \<and>
      compliance_rating row =
        (if total_sars row = 0 then None
         else Some (fmul (fdiv (int (responded_on_time row)) (int (total_sars row))) 100)) \<and>
      average_response_time row =
        (if [c \<leftarrow> cs. (user_id c = uid \<and> organization_name c = org) \<and>
               response_received c = Some True \<and> response_date c \<noteq> None] = []
         then None
         else Some (fdiv
           (sum_list (map (\<lambda>c. case extract_day (response_date c) (submission_date c) of
                                 None \<Rightarrow> 0 | Some v \<Rightarrow> v)
              [c \<leftarrow> cs. (user_id c = uid \<and> organization_name c = org) \<and>
                 response_received c = Some True \<and> response_date c \<noteq> None]))
           (int (length [c \<leftarrow> cs. (user_id c = uid \<and> organization_name c = org) \<and>
                 response_received c = Some True \<and> response_date c \<noteq> None]))))) \<and>
   (\<exists>rows. get_organization_performance_data fdiv fmul extract_day today uid d = Inr rows \<and>
      map p_organization_name rows =
        remdups (map organization_name [c \<leftarrow> cases d. user_id c = uid]) \<and>
      (\<forall>row \<in> set rows.
         organization_row fdiv fmul extract_day today uid (cases d) (p_organization_name row) =
           Inr row \<and>
         0 < total_sars row \<and> compliance_rating row \<noteq> None))"
proof
  show "\<exists>row. organization_row fdiv fmul extract_day today uid cs org = Inr row \<and>
      p_organization_name row = org \<and>
      total_sars row = length [c \<leftarrow> cs. user_id c = uid \<and> organization_name c = org] \<and>
      responded_on_time row =
        length [c \<leftarrow> cs. (user_id c = uid \<and> organization_name c = org) \<and>
           response_received c = Some True \<and>
           (\<exists>r s. response_date c = Some r \<and> statutory_deadline c = Some s \<and> r \<le> s)] \<and>
      compliance_rating row =
        (if total_sars row = 0 then None
         else Some (fmul (fdiv (int (responded_on_time row)) (int (total_sars row))) 100)) \<and>
      average_response_time row =
        (if [c \<leftarrow> cs. (user_id c = uid \<and> organization_name c = org) \<and>
               response_received c = Some True \<and> response_date c \<noteq> None] = []
         then None
         else Some (fdiv
           (sum_list (map (\<lambda>c. case extract_day (response_date c) (submission_date c) of
                                 None \<Rightarrow> 0 | Some v \<Rightarrow> v)
              [c \<leftarrow> cs. (user_id c = uid \<and> organization_name c = org) \<and>
                 response_received c = Some True \<and> response_date c \<noteq> None]))
           (int (length [c \<leftarrow> cs. (user_id c = uid \<and> organization_name c = org) \<and>
                 response_received c = Some True \<and> response_date c \<noteq> None]))))"
    unfolding organization_row_value by simp
next
  let ?f = "organization_row fdiv fmul extract_day today uid (cases d)"
  let ?names = "remdups (map organization_name [c \<leftarrow> cases d. user_id c = uid])"
  have "\<exists>rows. collect ?f ?names = Inr rows"
    by (rule collect_total) (simp add: organization_row_value)
  then obtain rows where rows: "collect ?f ?names = Inr rows"
    by blast
  from collect_rel [OF rows] have rel: "list_all2 (\<lambda>x y. ?f x = Inr y) ?names rows" .
  have names: "map p_organization_name rows = ?names"
    using rel by (rule rel_map) (auto simp: organization_row_value)
  have each: "?f (p_organization_name row) = Inr row \<and> 0 < total_sars row \<and>
              compliance_rating row \<noteq> None" if "row \<in> set rows" for row
  proof -
    from rel_right [OF rel that] obtain org where
      org: "org \<in> set ?names" "?f org = Inr row"
      by blast
    from org(1) have "[c \<leftarrow> cases d. user_id c = uid \<and> organization_name c = org] \<noteq> []"
      by (auto simp: filter_empty_conv)
    with org(2) show ?thesis
      by (auto simp: organization_row_value)
  qed
  show "\<exists>rows. get_organization_performance_data fdiv fmul extract_day today uid d = Inr rows \<and>
      map p_organization_name rows =
        remdups (map organization_name [c \<leftarrow> cases d. user_id c = uid]) \<and>
      (\<forall>row \<in> set rows.
         organization_row fdiv fmul extract_day today uid (cases d) (p_organization_name row) =
           Inr row \<and>
         0 < total_sars row \<and> compliance_rating row \<noteq> None)"
    using rows names each
    by (intro exI [of _ rows]) (simp add: get_organization_performance_data_def)
qed

theorem rating_and_average_of_performance_rows_witness:
  "get_organization_performance_data Quotient Product day_difference 200 7
     \<lparr>cases = acme_two, reminders = [], escalations = []\<rparr> =
     Inr [\<lparr>p_organization_name = ''Acme'', total_sars = 2, responded_on_time = 1,
           responded_late = 1, ignored = 0, average_response_time = Some (Quotient 45 2),
           compliance_rating = Some (Product (Quotient 1 2) 100)\<rparr>] \<and>
   organization_row Quotient Product day_difference 200 7 acme_two ''Acme'' =
     Inr \<lparr>p_organization_name = ''Acme'', total_sars = 2, responded_on_time = 1,
          responded_late = 1, ignored = 0, average_response_time = Some (Quotient 45 2),
          compliance_rating = Some (Product (Quotient 1 2) 100)\<rparr>"
proof -
  have r: "organization_row Quotient Product day_difference 200 7 acme_two ''Acme'' =
     Inr \<lparr>p_organization_name = ''Acme'', total_sars = 2, responded_on_time = 1,
          responded_late = 1, ignored = 0, average_response_time = Some (Quotient 45 2),
          compliance_rating = Some (Product (Quotient 1 2) 100)\<rparr>"
    by (simp add: organization_row_def count_where_def on_time_filter_def late_filter_def
        ignored_filter_def response_filter_def lt_date_def truediv_def sum_not_none_def
        day_difference_def acme_two_def acme_on_time_def acme_late_def acme_case_def Let_def)
  have n: "remdups (map organization_name [c \<leftarrow> acme_two. user_id c = 7]) = [''Acme'']"
    by (simp add: acme_two_def acme_on_time_def acme_late_def acme_case_def)
  have g: "get_organization_performance_data Quotient Product day_difference 200 7
     \<lparr>cases = acme_two, reminders = [], escalations = []\<rparr> =
     Inr [\<lparr>p_organization_name = ''Acme'', total_sars = 2, responded_on_time = 1,
           responded_late = 1, ignored = 0, average_response_time = Some (Quotient 45 2),
           compliance_rating = Some (Product (Quotient 1 2) 100)\<rparr>]"
    by (simp add: get_organization_performance_data_def n r)
  show ?thesis
    using r g rating_and_average_of_performance_rows [of Quotient Product day_difference 200 7
        acme_two "''Acme''" "\<lparr>cases = acme_two, reminders = [], escalations = []\<rparr>"]
    by simp
qed

section \<open>Calendar events\<close>













end
